theory Spec2Isabelle
  imports Main "HOL-Library.Signed_Division"
begin

section \<open>The wire message and the collaborators of the session loop\<close>

text \<open>
  The chat session of \<^verbatim>\<open>ChatLoop\<close> (package \<^verbatim>\<open>app\<close>) is embedded as pure functions over an
  explicit session state. Go strings and byte slices are byte lists; an instant of the
  clock (\<^verbatim>\<open>time.Time\<close>) is an integer number of nanoseconds, counted from the zero
  \<^verbatim>\<open>time.Time\<close>, and a \<^verbatim>\<open>time.Duration\<close> is an integer number of nanoseconds.
\<close>

type_synonym bytes = string
type_synonym time = int

record Message =
  Nick :: string
  Text :: string
  Ts :: time

text \<open>Go \<^verbatim>\<open>error\<close> values: the ones the loops tell apart, and any other one by its text.\<close>

datatype error =
    ErrInterrupt
  | EOF
  | Canceled
  | Failure string
  | Wrapped string error

text \<open>
  The library calls whose code is outside the repository are parameters of the model:
  \<^verbatim>\<open>json.Marshal\<close> and \<^verbatim>\<open>json.Unmarshal\<close> on a \<^verbatim>\<open>Message\<close>, \<^verbatim>\<open>strings.ToLower\<close>,
  \<^verbatim>\<open>strings.TrimSpace\<close> and \<^verbatim>\<open>Time.Format("2006-01-02 15:04:05")\<close>.
\<close>

record lib =
  Marshal :: "Message \<Rightarrow> error + bytes"
  Unmarshal :: "bytes \<Rightarrow> error + Message"
  ToLower :: "string \<Rightarrow> string"
  TrimSpace :: "string \<Rightarrow> string"
  Format :: "time \<Rightarrow> string"

subsection \<open>Strings and formatting\<close>

definition HasPrefix :: "string \<Rightarrow> string \<Rightarrow> bool" where
  "HasPrefix s p = (length p \<le> length s \<and> take (length p) s = p)"

definition ESC :: string where
  "ESC = [CHR 0x1B]"

definition CR :: string where
  "CR = [CHR 0x0D]"

definition LF :: string where
  "LF = [CHR 0x0A]"

text \<open>The two bytes of the UTF-8 encoding of the chevron that starts a chat body line.\<close>

definition chevron :: string where
  "chevron = [CHR 0xC2, CHR 0xBB]"

definition digit_char :: "nat \<Rightarrow> char" where
  "digit_char d = ''0123456789'' ! d"

fun utoa :: "nat \<Rightarrow> string" where
  "utoa n = (if n < 10 then [digit_char n] else utoa (n div 10) @ [digit_char (n mod 10)])"

declare utoa.simps [simp del]

text \<open>The verb \<^verbatim>\<open>%d\<close> of \<^verbatim>\<open>fmt\<close> on an integer.\<close>

definition itoa :: "int \<Rightarrow> string" where
  "itoa i = (if i < 0 then ''-'' @ utoa (nat (- i)) else utoa (nat i))"

text \<open>\<^verbatim>\<open>strings.ReplaceAll(s, "\n", r)\<close>: every line feed of \<open>s\<close> becomes \<open>r\<close>.\<close>

definition ReplaceAll_LF :: "string \<Rightarrow> string \<Rightarrow> string" where
  "ReplaceAll_LF s r = concat (map (\<lambda>c. if [c] = LF then r else [c]) s)"

text \<open>The verb \<^verbatim>\<open>%v\<close> on a slice of peer ids, each given by its \<^verbatim>\<open>String()\<close>.\<close>

fun join_sp :: "string list \<Rightarrow> string" where
  "join_sp [] = []"
| "join_sp [x] = x"
| "join_sp (x # y # ys) = x @ '' '' @ join_sp (y # ys)"

definition fmt_v :: "string list \<Rightarrow> string" where
  "fmt_v xs = ''['' @ join_sp xs @ '']''"

definition hex_digit :: "nat \<Rightarrow> char" where
  "hex_digit d = ''0123456789abcdef'' ! d"

text \<open>\<^verbatim>\<open>hex.EncodeToString\<close>: two lower-case hexadecimal digits per byte.\<close>

definition EncodeToString :: "bytes \<Rightarrow> string" where
  "EncodeToString b =
     concat (map (\<lambda>c. [hex_digit (of_char c div 16), hex_digit (of_char c mod 16)]) b)"

text \<open>
  \<^verbatim>\<open>makeID\<close>: the hexadecimal form of the eight-byte buffer that \<^verbatim>\<open>rand.Read\<close> filled; the
  buffer's content \<open>rnd\<close> comes from the environment.
\<close>

definition makeID :: "bytes \<Rightarrow> string" where
  "makeID rnd = EncodeToString rnd"

subsection \<open>Durations\<close>

text \<open>\<^verbatim>\<open>time.Since(t0)\<close> read at the instant \<open>now\<close>.\<close>

definition Since :: "time \<Rightarrow> time \<Rightarrow> int" where
  "Since now t0 = now - t0"

text \<open>\<^verbatim>\<open>Duration.Milliseconds\<close>: whole milliseconds, rounded towards zero.\<close>

definition Milliseconds :: "int \<Rightarrow> int" where
  "Milliseconds d = d sdiv 1000000"

subsection \<open>Lines written to the terminal\<close>

definition prompt :: string where
  "prompt = ''> ''"

definition clear_line :: string where
  "clear_line = ESC @ ''[2K'' @ CR"

definition up_clear_line :: string where
  "up_clear_line = ESC @ ''[1A'' @ ESC @ ''[2K'' @ CR"

definition joined_line :: "string \<Rightarrow> string" where
  "joined_line who =
     CR @ ESC @ ''[1;32m*** '' @ who @ '' joined the chat ***'' @ ESC @ ''[0m'' @ LF @ ''> ''"

definition pong_line :: "string \<Rightarrow> int \<Rightarrow> string" where
  "pong_line who dur =
     CR @ ESC @ ''[36mPong from '' @ who @ '': '' @ itoa dur @ '' ms'' @ ESC @ ''[0m'' @ LF @ ''> ''"

definition chat_block :: "string \<Rightarrow> string \<Rightarrow> string \<Rightarrow> string" where
  "chat_block stamp who body =
     ''> ['' @ stamp @ ''] ['' @ (ESC @ ''[32m'' @ who @ ESC @ ''[0m'') @ '']'' @ LF
       @ chevron @ '' '' @ body @ LF @ LF"

definition helpText :: string where
  "helpText =
     ''Available commands:'' @ LF
     @ ''/help           Show this help'' @ LF
     @ ''/quit           Leave the chat'' @ LF
     @ ''/list           Show peers currently in the room'' @ LF
     @ ''/ping           Measure round-trip latency to all peers''"

definition peers_line :: "string list \<Rightarrow> string" where
  "peers_line peers =
     ''Peers ('' @ itoa (int (length peers)) @ ''): '' @ fmt_v peers @ LF"

definition unknown_line :: "string \<Rightarrow> string" where
  "unknown_line cmd = ''Unknown command: '' @ cmd @ LF"

text \<open>The farewell: the four bytes of the waving-hand sign, two spaces, the word, a line feed.\<close>

definition bye_line :: string where
  "bye_line = [CHR 0xF0, CHR 0x9F, CHR 0x91, CHR 0x8B] @ ''  Bye!'' @ LF"

section \<open>The session state\<close>

text \<open>
  What an iteration of a loop ends with: the loop goes on, or the goroutine returns
  (\<open>None\<close> is Go's \<^verbatim>\<open>nil\<close> error).
\<close>

datatype outcome = Continue | Return "error option"

text \<open>
  Everything the three goroutines of \<^verbatim>\<open>ChatLoop\<close> share or leave behind: the package
  variable \<^verbatim>\<open>pingOutstanding\<close>, the chunks written to the terminal (oldest first), the
  payloads handed to \<^verbatim>\<open>Topic.Publish\<close> with the result each call returned, whether the
  context is cancelled, the first error of the \<^verbatim>\<open>errgroup\<close>, where each goroutine stands
  and the flag of the announcer's \<^verbatim>\<open>sync.Once\<close>.
\<close>

record session =
  pingOutstanding :: "string \<rightharpoonup> time"
  terminal :: "bytes list"
  published :: "(bytes \<times> error option) list"
  ctx_done :: bool
  group_err :: "error option"
  receiver_st :: outcome
  sender_st :: outcome
  announcer_st :: outcome
  once_done :: bool

definition init_session :: session where
  "init_session =
     \<lparr>pingOutstanding = Map.empty, terminal = [], published = [], ctx_done = False,
      group_err = None, receiver_st = Continue, sender_st = Continue,
      announcer_st = Continue, once_done = False\<rparr>"

text \<open>\<^verbatim>\<open>rl.Write\<close>, and \<^verbatim>\<open>fmt.Fprint\<close> to \<^verbatim>\<open>rl.Stdout()\<close>: one more chunk on the terminal.\<close>

definition Write :: "bytes \<Rightarrow> session \<Rightarrow> session" where
  "Write b s = s\<lparr>terminal := terminal s @ [b]\<rparr>"

text \<open>
  \<^verbatim>\<open>n.Topic.Publish(ctx, b)\<close>: the payload is handed to the topic and the call returns
  \<open>res\<close>, which the environment decides.
\<close>

definition Publish :: "error option \<Rightarrow> bytes \<Rightarrow> session \<Rightarrow> error option \<times> session" where
  "Publish res b s = (res, s\<lparr>published := published s @ [(b, res)]\<rparr>)"

text \<open>\<^verbatim>\<open>b, _ := json.Marshal(m)\<close>: the error is dropped, and \<open>b\<close> is \<^verbatim>\<open>nil\<close> when there is one.\<close>

definition marshal_bytes :: "lib \<Rightarrow> Message \<Rightarrow> bytes" where
  "marshal_bytes L m = (case Marshal L m of Inl e \<Rightarrow> [] | Inr b \<Rightarrow> b)"

section \<open>The receiver\<close>

text \<open>
  What one iteration of the receiver reads from its environment: the result of
  \<^verbatim>\<open>n.Sub.Next(ctx)\<close>, the clock (the body reads it at most once) and the result of the
  publish it may make.
\<close>

record recv_in =
  next_res :: "error + bytes"
  r_now :: time
  r_pub :: "error option"

text \<open>The body of the loop after a successful decode; every branch goes on to the next datum.\<close>

definition on_message :: "lib \<Rightarrow> string \<Rightarrow> time \<Rightarrow> error option \<Rightarrow> Message \<Rightarrow> session \<Rightarrow> session" where
  "on_message L nick now pub m s =
     (if HasPrefix (Text m) ''__PING__'' then
        (if Nick m = nick then s
         else snd (Publish pub
                (marshal_bytes L \<lparr>Nick = nick, Text = ''__PONG__'' @ drop 8 (Text m), Ts = now\<rparr>) s))
      else if HasPrefix (Text m) ''__PONG__'' then
        (if Nick m = nick then s
         else (case pingOutstanding s (drop 8 (Text m)) of
                 Some t0 \<Rightarrow>
                   Write (pong_line (Nick m) (Milliseconds (Since now t0)))
                     (s\<lparr>pingOutstanding := (pingOutstanding s)(drop 8 (Text m) := None)\<rparr>)
               | None \<Rightarrow> s))
      else if Text m = ''__JOIN__'' then
        (if Nick m \<noteq> nick then Write (joined_line (Nick m)) s else s)
      else
        Write prompt
          (Write (chat_block (Format L now) (Nick m)
                    (ReplaceAll_LF (Text m) (LF @ chevron @ '' '')))
             (Write clear_line s)))"

definition receiver_iter :: "lib \<Rightarrow> string \<Rightarrow> recv_in \<Rightarrow> session \<Rightarrow> outcome \<times> session" where
  "receiver_iter L nick i s =
     (case next_res i of
        Inl err \<Rightarrow> (Return (Some err), s)
      | Inr data \<Rightarrow>
          (case Unmarshal L data of
             Inl err \<Rightarrow> (Continue, s)
           | Inr m \<Rightarrow> (Continue, on_message L nick (r_now i) (r_pub i) m s)))"

section \<open>The sender\<close>

text \<open>
  What one iteration of the sender reads: the result of \<^verbatim>\<open>rl.Readline()\<close>, the random
  buffer of \<^verbatim>\<open>makeID\<close>, the two clock readings of the \<^verbatim>\<open>ping\<close> branch (the second one is
  the only reading of the chat branch), the result of the publish and the peers of the
  topic.
\<close>

record send_in =
  read_res :: "error + string"
  rnd :: bytes
  t_sent :: time
  t_msg :: time
  s_pub :: "error option"
  peers :: "string list"

definition on_command :: "lib \<Rightarrow> string \<Rightarrow> send_in \<Rightarrow> string \<Rightarrow> session \<Rightarrow> outcome \<times> session" where
  "on_command L nick i cmd s =
     (if cmd = ''list'' then
        (Continue, Write prompt (Write (peers_line (peers i)) (Write clear_line s)))
      else if cmd = ''ping'' then
        (Continue,
         snd (Publish (s_pub i)
                (marshal_bytes L \<lparr>Nick = nick, Text = ''__PING__'' @ makeID (rnd i), Ts = t_msg i\<rparr>)
                (s\<lparr>pingOutstanding := (pingOutstanding s)(makeID (rnd i) \<mapsto> t_sent i)\<rparr>)))
      else if cmd = ''help'' \<or> cmd = ''h'' \<or> cmd = ''?'' then
        (Continue, Write prompt (Write (helpText @ LF) (Write clear_line s)))
      else if cmd = ''quit'' \<or> cmd = ''exit'' \<or> cmd = ''q'' then
        (Return None, (Write bye_line s)\<lparr>ctx_done := True\<rparr>)
      else
        (Continue, Write prompt (Write (unknown_line cmd) (Write clear_line s))))"

definition sender_iter :: "lib \<Rightarrow> string \<Rightarrow> send_in \<Rightarrow> session \<Rightarrow> outcome \<times> session" where
  "sender_iter L nick i s =
     (case read_res i of
        Inl err \<Rightarrow> (if err = ErrInterrupt then (Continue, s) else (Return (Some err), s))
      | Inr line \<Rightarrow>
          (if HasPrefix line ''/'' then
             on_command L nick i (ToLower L (TrimSpace L (drop 1 line))) s
           else
             (case Marshal L \<lparr>Nick = nick, Text = line, Ts = t_msg i\<rparr> of
                Inl err \<Rightarrow> (Return (Some err), Write up_clear_line s)
              | Inr payload \<Rightarrow>
                  (case fst (Publish (s_pub i) payload (Write up_clear_line s)) of
                     Some err \<Rightarrow>
                       (Return (Some err), snd (Publish (s_pub i) payload (Write up_clear_line s)))
                   | None \<Rightarrow>
                       (Continue, snd (Publish (s_pub i) payload (Write up_clear_line s)))))))"

section \<open>The presence announcer\<close>

text \<open>
  What the \<^verbatim>\<open>select\<close> of \<^verbatim>\<open>announceJoinWhenReady\<close> takes in one iteration: the closed
  \<^verbatim>\<open>ctx.Done()\<close>, or a tick, with the peers \<^verbatim>\<open>ListPeers\<close> then returns, the clock and the result
  of the publish.
\<close>

datatype ann_in = CtxDone | Tick "string list" time "error option"

text \<open>\<^verbatim>\<open>once.Do(f)\<close>.\<close>

definition once_Do :: "(session \<Rightarrow> session) \<Rightarrow> session \<Rightarrow> session" where
  "once_Do f s = (if once_done s then s else f (s\<lparr>once_done := True\<rparr>))"

definition announce :: "lib \<Rightarrow> string \<Rightarrow> time \<Rightarrow> error option \<Rightarrow> session \<Rightarrow> session" where
  "announce L nick now pub s =
     (case Marshal L \<lparr>Nick = nick, Text = ''__JOIN__'', Ts = now\<rparr> of
        Inl err \<Rightarrow> s
      | Inr b \<Rightarrow> snd (Publish pub b s))"

definition announcer_iter :: "lib \<Rightarrow> string \<Rightarrow> ann_in \<Rightarrow> session \<Rightarrow> outcome \<times> session" where
  "announcer_iter L nick a s =
     (case a of
        CtxDone \<Rightarrow> (Return None, s)
      | Tick ps now pub \<Rightarrow>
          (if length ps > 0 then (Return None, once_Do (announce L nick now pub) s)
           else (Continue, s)))"

section \<open>The loops and the session\<close>

text \<open>
  A \<^verbatim>\<open>for { ... }\<close> loop runs its body on what the environment feeds it, one input per
  iteration, until the body returns; with the inputs used up the goroutine is blocked and
  the loop has not returned (\<open>Continue\<close>).
\<close>

fun run_loop :: "('i \<Rightarrow> session \<Rightarrow> outcome \<times> session) \<Rightarrow> 'i list \<Rightarrow> session \<Rightarrow> outcome \<times> session" where
  "run_loop body [] s = (Continue, s)"
| "run_loop body (i # rest) s =
     (case fst (body i s) of
        Continue \<Rightarrow> run_loop body rest (snd (body i s))
      | Return r \<Rightarrow> (Return r, snd (body i s)))"

definition receiver :: "lib \<Rightarrow> string \<Rightarrow> recv_in list \<Rightarrow> session \<Rightarrow> outcome \<times> session" where
  "receiver L nick = run_loop (receiver_iter L nick)"

definition sender :: "lib \<Rightarrow> string \<Rightarrow> send_in list \<Rightarrow> session \<Rightarrow> outcome \<times> session" where
  "sender L nick = run_loop (sender_iter L nick)"


text \<open>
  The goroutines run interleaved: a schedule is the list of their iterations in the order
  they happen, each with its input.
\<close>

datatype event = Recv recv_in | Send send_in | Ann ann_in

text \<open>
  A goroutine started by \<^verbatim>\<open>g.Go\<close> has returned \<open>r\<close>: the first error that is not \<^verbatim>\<open>nil\<close> is
  kept and cancels the context of the group.
\<close>

definition group_return :: "error option \<Rightarrow> session \<Rightarrow> session" where
  "group_return r s =
     (case r of
        None \<Rightarrow> s
      | Some err \<Rightarrow>
          (if group_err s = None then s\<lparr>group_err := Some err, ctx_done := True\<rparr> else s))"

text \<open>
  One step of the session. A goroutine that has returned takes no more steps, and the
  announcer can take \<^verbatim>\<open>ctx.Done()\<close> only once the context is cancelled.
\<close>

definition chat_step :: "lib \<Rightarrow> string \<Rightarrow> event \<Rightarrow> session \<Rightarrow> session" where
  "chat_step L nick ev s =
     (case ev of
        Recv i \<Rightarrow>
          (if receiver_st s = Continue then
             (case fst (receiver_iter L nick i s) of
                Continue \<Rightarrow> snd (receiver_iter L nick i s)
              | Return r \<Rightarrow>
                  group_return r ((snd (receiver_iter L nick i s))\<lparr>receiver_st := Return r\<rparr>))
           else s)
      | Send i \<Rightarrow>
          (if sender_st s = Continue then
             (case fst (sender_iter L nick i s) of
                Continue \<Rightarrow> snd (sender_iter L nick i s)
              | Return r \<Rightarrow>
                  group_return r ((snd (sender_iter L nick i s))\<lparr>sender_st := Return r\<rparr>))
           else s)
      | Ann a \<Rightarrow>
          (if announcer_st s = Continue \<and> (if a = CtxDone then ctx_done s else True) then
             (case fst (announcer_iter L nick a s) of
                Continue \<Rightarrow> snd (announcer_iter L nick a s)
              | Return r \<Rightarrow> (snd (announcer_iter L nick a s))\<lparr>announcer_st := Return r\<rparr>)
           else s))"

definition run_session :: "lib \<Rightarrow> string \<Rightarrow> event list \<Rightarrow> session \<Rightarrow> session" where
  "run_session L nick evs s = foldl (\<lambda>s ev. chat_step L nick ev s) s evs"

text \<open>
  \<^verbatim>\<open>g.Wait()\<close>: once both goroutines of the group have returned, the first error of the
  group; \<open>None\<close> while one of them is still running.
\<close>

definition Wait :: "session \<Rightarrow> error option option" where
  "Wait s =
     (if receiver_st s \<noteq> Continue \<and> sender_st s \<noteq> Continue then Some (group_err s) else None)"

text \<open>
  \<^verbatim>\<open>ChatLoop\<close> under a schedule: what it returns (\<open>None\<close> when it has not returned at the
  end of the schedule) and the session it leaves. \<open>rl_new\<close> is the error of
  \<^verbatim>\<open>readline.New\<close>.
\<close>

definition ChatLoop :: "lib \<Rightarrow> string \<Rightarrow> error option \<Rightarrow> event list \<Rightarrow> error option option \<times> session" where
  "ChatLoop L nick rl_new evs =
     (case rl_new of
        Some err \<Rightarrow> (Some (Some (Wrapped ''init readline'' err)), init_session)
      | None \<Rightarrow>
          (Wait (run_session L nick evs (Write (joined_line nick) init_session)),
           run_session L nick evs (Write (joined_line nick) init_session)))"

section \<open>The JSON codec of the wire message\<close>

text \<open>
  The loops encode and decode with \<^verbatim>\<open>json.Marshal\<close> and \<^verbatim>\<open>json.Unmarshal\<close> of Go's
  \<^verbatim>\<open>encoding/json\<close> on the struct \<^verbatim>\<open>Message\<close> with its tags \<^verbatim>\<open>nick\<close>, \<^verbatim>\<open>text\<close> and \<^verbatim>\<open>ts\<close>.
  This section follows that package on this struct: how a string is written and read
  back, the scanner, and the decoding of an object into the struct. The two methods of
  \<^verbatim>\<open>time.Time\<close> that write and parse the timestamp stay parameters (\<open>tm\<close> and \<open>tu\<close>).
\<close>

subsection \<open>UTF-8\<close>

text \<open>The value of a byte.\<close>

definition code :: "char \<Rightarrow> nat" where
  "code c = of_char c"

text \<open>A continuation byte within the range a lead byte accepts.\<close>

definition cont :: "nat \<Rightarrow> nat \<Rightarrow> char \<Rightarrow> bool" where
  "cont lo hi c = (lo \<le> code c \<and> code c \<le> hi)"

text \<open>
  \<^verbatim>\<open>utf8.DecodeRuneInString\<close>, as far as its size goes: the length of the well-formed
  encoding at the head of \<open>s\<close>, and 0 where Go returns \<^verbatim>\<open>(RuneError, 1)\<close> or the string is
  empty.
\<close>

definition utf8_size :: "bytes \<Rightarrow> nat" where
  "utf8_size s =
     (case s of
        [] \<Rightarrow> 0
      | c # cs \<Rightarrow>
     (if code c < 0x80 then 1
      else if code c < 0xC2 then 0
      else if code c < 0xE0 then
        (if 1 \<le> length cs \<and> cont 0x80 0xBF (cs ! 0) then 2 else 0)
      else if code c < 0xF0 then
        (if 2 \<le> length cs
            \<and> cont (if code c = 0xE0 then 0xA0 else 0x80) (if code c = 0xED then 0x9F else 0xBF) (cs ! 0)
            \<and> cont 0x80 0xBF (cs ! 1) then 3 else 0)
      else if code c < 0xF5 then
        (if 3 \<le> length cs
            \<and> cont (if code c = 0xF0 then 0x90 else 0x80) (if code c = 0xF4 then 0x8F else 0xBF) (cs ! 0)
            \<and> cont 0x80 0xBF (cs ! 1) \<and> cont 0x80 0xBF (cs ! 2) then 4 else 0)
      else 0))"

text \<open>\<^verbatim>\<open>utf8.ValidString\<close>.\<close>

fun ValidString :: "bytes \<Rightarrow> bool" where
  "ValidString [] = True"
| "ValidString (c # cs) =
     (if utf8_size (c # cs) = 0 then False else ValidString (drop (utf8_size (c # cs) - 1) cs))"

subsection \<open>Writing a string\<close>

definition BSL :: char where
  "BSL = CHR 0x5C"

definition DQ :: char where
  "DQ = CHR 0x22"

definition replacement :: bytes where
  "replacement = [CHR 0xEF, CHR 0xBF, CHR 0xBD]"

text \<open>\<^verbatim>\<open>htmlSafeSet\<close>: the ASCII bytes written as they are.\<close>

definition htmlSafe :: "char \<Rightarrow> bool" where
  "htmlSafe c =
     (0x20 \<le> code c \<and> code c < 0x80 \<and> c \<noteq> DQ \<and> c \<noteq> BSL
      \<and> c \<noteq> CHR ''<'' \<and> c \<noteq> CHR ''>'' \<and> c \<noteq> CHR ''&'')"

definition escape_byte :: "char \<Rightarrow> bytes" where
  "escape_byte c =
     (if c = BSL \<or> c = DQ then [BSL, c]
      else if c = CHR 0x08 then [BSL, CHR ''b'']
      else if c = CHR 0x0C then [BSL, CHR ''f'']
      else if c = CHR 0x0A then [BSL, CHR ''n'']
      else if c = CHR 0x0D then [BSL, CHR ''r'']
      else if c = CHR 0x09 then [BSL, CHR ''t'']
      else [BSL, CHR ''u'', CHR ''0'', CHR ''0'', hex_digit (code c div 16), hex_digit (code c mod 16)])"

text \<open>
  One round of the loop of \<^verbatim>\<open>appendString\<close> (with \<^verbatim>\<open>escapeHTML\<close>, as \<^verbatim>\<open>Marshal\<close> sets it) on
  a string that is not empty: what is written and how many bytes of the input it took. An
  invalid byte is written as the escape of U+FFFD.
\<close>

definition encode_next :: "bytes \<Rightarrow> bytes \<times> nat" where
  "encode_next s =
     (if code (hd s) < 0x80 then
        (if htmlSafe (hd s) then [hd s] else escape_byte (hd s), 1)
      else if utf8_size s = 0 then (BSL # ''ufffd'', 1)
      else if take 3 s = [CHR 0xE2, CHR 0x80, CHR 0xA8] then (BSL # ''u2028'', 3)
      else if take 3 s = [CHR 0xE2, CHR 0x80, CHR 0xA9] then (BSL # ''u2029'', 3)
      else (take (utf8_size s) s, utf8_size s))"

fun appendString :: "bytes \<Rightarrow> bytes" where
  "appendString [] = []"
| "appendString (c # cs) =
     fst (encode_next (c # cs)) @ appendString (drop (snd (encode_next (c # cs)) - 1) cs)"

definition quote :: "bytes \<Rightarrow> bytes" where
  "quote s = DQ # appendString s @ [DQ]"

subsection \<open>Reading a string\<close>

definition hexval :: "char \<Rightarrow> nat option" where
  "hexval c =
     (if code (CHR ''0'') \<le> code c \<and> code c \<le> code (CHR ''9'')
        then Some (code c - code (CHR ''0''))
      else if code (CHR ''a'') \<le> code c \<and> code c \<le> code (CHR ''f'')
        then Some (code c - code (CHR ''a'') + 10)
      else if code (CHR ''A'') \<le> code c \<and> code c \<le> code (CHR ''F'')
        then Some (code c - code (CHR ''A'') + 10)
      else None)"

text \<open>The four hexadecimal digits after \<^verbatim>\<open>\u\<close>.\<close>

definition getu4 :: "bytes \<Rightarrow> nat option" where
  "getu4 s =
     (case s of
        a # b # c # d # _ \<Rightarrow>
          (case (hexval a, hexval b, hexval c, hexval d) of
             (Some x, Some y, Some z, Some w) \<Rightarrow> Some (((x * 16 + y) * 16 + z) * 16 + w)
           | _ \<Rightarrow> None)
      | _ \<Rightarrow> None)"

text \<open>\<^verbatim>\<open>utf8.AppendRune\<close>.\<close>

definition AppendRune :: "nat \<Rightarrow> bytes" where
  "AppendRune r =
     (if r < 0x80 then [char_of r]
      else if r < 0x800 then [char_of (0xC0 + r div 64), char_of (0x80 + r mod 64)]
      else if (0xD800 \<le> r \<and> r < 0xE000) \<or> 0x10FFFF < r then replacement
      else if r < 0x10000 then
        [char_of (0xE0 + r div 4096), char_of (0x80 + r div 64 mod 64), char_of (0x80 + r mod 64)]
      else
        [char_of (0xF0 + r div 262144), char_of (0x80 + r div 4096 mod 64),
         char_of (0x80 + r div 64 mod 64), char_of (0x80 + r mod 64)])"

definition simple_escape :: "char \<Rightarrow> char option" where
  "simple_escape e =
     (if e = DQ \<or> e = BSL \<or> e = CHR ''/'' then Some e
      else if e = CHR ''b'' then Some (CHR 0x08)
      else if e = CHR ''f'' then Some (CHR 0x0C)
      else if e = CHR ''n'' then Some (CHR 0x0A)
      else if e = CHR ''r'' then Some (CHR 0x0D)
      else if e = CHR ''t'' then Some (CHR 0x09)
      else None)"

text \<open>The escape of the second half of a surrogate pair, if one follows.\<close>

definition low_surrogate :: "bytes \<Rightarrow> nat option" where
  "low_surrogate s =
     (case s of
        b # u # rest \<Rightarrow>
          (if b = BSL \<and> u = CHR ''u'' then
             (case getu4 rest of
                Some r2 \<Rightarrow> if 0xDC00 \<le> r2 \<and> r2 < 0xE000 then Some r2 else None
              | None \<Rightarrow> None)
           else None)
      | _ \<Rightarrow> None)"

definition emit :: "bytes \<Rightarrow> (bytes \<times> bytes) option \<Rightarrow> (bytes \<times> bytes) option" where
  "emit x r = (case r of None \<Rightarrow> None | Some (s, rest) \<Rightarrow> Some (x @ s, rest))"

text \<open>
  One item of a string literal, as the scanner accepts it and \<^verbatim>\<open>unquote\<close> turns it into
  bytes: the bytes it stands for and how many bytes of the input it took. \<open>None\<close> is a
  syntax error.
\<close>

definition decode_escape :: "bytes \<Rightarrow> (bytes \<times> nat) option" where
  "decode_escape es =
     (case es of
        [] \<Rightarrow> None
      | e # us \<Rightarrow>
          (if e = CHR ''u'' then
             (case getu4 us of
                None \<Rightarrow> None
              | Some rr \<Rightarrow>
                  (if 0xD800 \<le> rr \<and> rr < 0xE000 then
                     (case (if rr < 0xDC00 then low_surrogate (drop 4 us) else None) of
                        Some r2 \<Rightarrow>
                          Some (AppendRune ((rr - 0xD800) * 1024 + (r2 - 0xDC00) + 0x10000), 12)
                      | None \<Rightarrow> Some (replacement, 6))
                   else Some (AppendRune rr, 6)))
           else
             (case simple_escape e of
                None \<Rightarrow> None
              | Some d \<Rightarrow> Some ([d], 2))))"

definition decode_next :: "bytes \<Rightarrow> (bytes \<times> nat) option" where
  "decode_next s =
     (if hd s = BSL then decode_escape (tl s)
      else if code (hd s) < 0x20 then None
      else if code (hd s) < 0x80 then Some ([hd s], 1)
      else if utf8_size s = 0 then Some (replacement, 1)
      else Some (take (utf8_size s) s, utf8_size s))"

text \<open>
  A string literal read from behind its opening quote: the string it stands for and what
  follows its closing quote.
\<close>

fun unquote :: "bytes \<Rightarrow> (bytes \<times> bytes) option" where
  "unquote [] = None"
| "unquote (c # cs) =
     (if c = DQ then Some ([], cs)
      else
        (case decode_next (c # cs) of
           None \<Rightarrow> None
         | Some (x, n) \<Rightarrow> emit x (unquote (drop (n - 1) cs))))"

text \<open>A string with every invalid byte replaced by U+FFFD.\<close>

fun coerce_utf8 :: "bytes \<Rightarrow> bytes" where
  "coerce_utf8 [] = []"
| "coerce_utf8 (c # cs) =
     (if utf8_size (c # cs) = 0 then replacement @ coerce_utf8 cs
      else (c # take (utf8_size (c # cs) - 1) cs) @ coerce_utf8 (drop (utf8_size (c # cs) - 1) cs))"

subsection \<open>The scanner\<close>

definition isSpace :: "char \<Rightarrow> bool" where
  "isSpace c = (c = CHR '' '' \<or> c = CHR 0x09 \<or> c = CHR 0x0D \<or> c = CHR 0x0A)"

definition skip_ws :: "bytes \<Rightarrow> bytes" where
  "skip_ws s = dropWhile isSpace s"

definition isDigit :: "char \<Rightarrow> bool" where
  "isDigit c = (code (CHR ''0'') \<le> code c \<and> code c \<le> code (CHR ''9''))"

definition scan_int :: "bytes \<Rightarrow> bytes option" where
  "scan_int s =
     (case s of
        [] \<Rightarrow> None
      | c # r \<Rightarrow>
          (if c = CHR ''0'' then Some r
           else if isDigit c then Some (dropWhile isDigit r)
           else None))"

definition scan_digits :: "bytes \<Rightarrow> bytes option" where
  "scan_digits s = (if s \<noteq> [] \<and> isDigit (hd s) then Some (dropWhile isDigit s) else None)"

definition scan_frac :: "bytes \<Rightarrow> bytes option" where
  "scan_frac s = (if s \<noteq> [] \<and> hd s = CHR ''.'' then scan_digits (tl s) else Some s)"

definition scan_exp :: "bytes \<Rightarrow> bytes option" where
  "scan_exp s =
     (if s \<noteq> [] \<and> (hd s = CHR ''e'' \<or> hd s = CHR ''E'') then
        (if tl s \<noteq> [] \<and> (hd (tl s) = CHR ''+'' \<or> hd (tl s) = CHR ''-'')
         then scan_digits (tl (tl s)) else scan_digits (tl s))
      else Some s)"

definition scan_number :: "bytes \<Rightarrow> bytes option" where
  "scan_number s =
     (case scan_int (if s \<noteq> [] \<and> hd s = CHR ''-'' then tl s else s) of
        None \<Rightarrow> None
      | Some r \<Rightarrow> (case scan_frac r of None \<Rightarrow> None | Some r' \<Rightarrow> scan_exp r'))"

definition scan_literal :: "string \<Rightarrow> bytes \<Rightarrow> bytes option" where
  "scan_literal lit s = (if HasPrefix s lit then Some (drop (length lit) s) else None)"

text \<open>
  The scanner of \<^verbatim>\<open>encoding/json\<close>, token by token: what it expects next, and the stack
  of the objects and arrays it is in (\<^verbatim>\<open>parseState\<close>).
\<close>

datatype expect =
    BeginValue | BeginValueOrEmpty | BeginStringOrEmpty | BeginString | EndValue

datatype frame = ObjectKey | ObjectValue | ArrayValue

definition maxNestingDepth :: nat where
  "maxNestingDepth = 10000"

definition begin_string :: "frame list \<Rightarrow> bytes \<Rightarrow> (expect \<times> frame list \<times> bytes) option" where
  "begin_string st s =
     (if s \<noteq> [] \<and> hd s = DQ then
        (case unquote (tl s) of None \<Rightarrow> None | Some (x, r) \<Rightarrow> Some (EndValue, st, r))
      else None)"

definition begin_value :: "frame list \<Rightarrow> bytes \<Rightarrow> (expect \<times> frame list \<times> bytes) option" where
  "begin_value st s =
     (case s of
        [] \<Rightarrow> None
      | c # cs \<Rightarrow>
          (if c = CHR ''{'' then
             (if length st < maxNestingDepth then Some (BeginStringOrEmpty, ObjectKey # st, cs)
              else None)
           else if c = CHR ''['' then
             (if length st < maxNestingDepth then Some (BeginValueOrEmpty, ArrayValue # st, cs)
              else None)
           else if c = DQ then begin_string st s
           else if c = CHR ''-'' \<or> isDigit c then
             (case scan_number s of None \<Rightarrow> None | Some r \<Rightarrow> Some (EndValue, st, r))
           else if c = CHR ''t'' then
             (case scan_literal ''true'' s of None \<Rightarrow> None | Some r \<Rightarrow> Some (EndValue, st, r))
           else if c = CHR ''f'' then
             (case scan_literal ''false'' s of None \<Rightarrow> None | Some r \<Rightarrow> Some (EndValue, st, r))
           else if c = CHR ''n'' then
             (case scan_literal ''null'' s of None \<Rightarrow> None | Some r \<Rightarrow> Some (EndValue, st, r))
           else None))"

definition end_value :: "frame list \<Rightarrow> bytes \<Rightarrow> (expect \<times> frame list \<times> bytes) option" where
  "end_value st s =
     (case st of
        [] \<Rightarrow> None
      | f # fs \<Rightarrow>
          (case s of
             [] \<Rightarrow> None
           | c # cs \<Rightarrow>
               (case f of
                  ObjectKey \<Rightarrow>
                    (if c = CHR '':'' then Some (BeginValue, ObjectValue # fs, cs) else None)
                | ObjectValue \<Rightarrow>
                    (if c = CHR '','' then Some (BeginString, ObjectKey # fs, cs)
                     else if c = CHR ''}'' then Some (EndValue, fs, cs)
                     else None)
                | ArrayValue \<Rightarrow>
                    (if c = CHR '','' then Some (BeginValue, st, cs)
                     else if c = CHR '']'' then Some (EndValue, fs, cs)
                     else None))))"

definition scan_step :: "expect \<Rightarrow> frame list \<Rightarrow> bytes \<Rightarrow> (expect \<times> frame list \<times> bytes) option" where
  "scan_step e st s =
     (case e of
        BeginValue \<Rightarrow> begin_value st s
      | BeginValueOrEmpty \<Rightarrow>
          (if s \<noteq> [] \<and> hd s = CHR '']'' then Some (EndValue, tl st, tl s) else begin_value st s)
      | BeginStringOrEmpty \<Rightarrow>
          (if s \<noteq> [] \<and> hd s = CHR ''}'' then Some (EndValue, tl st, tl s) else begin_string st s)
      | BeginString \<Rightarrow> begin_string st s
      | EndValue \<Rightarrow> end_value st s)"

text \<open>
  Scanning one value: the bytes left after it, or \<open>None\<close> for a syntax error. Every step
  takes at least one byte, so the length of the input bounds the steps.
\<close>

fun scan :: "nat \<Rightarrow> expect \<Rightarrow> frame list \<Rightarrow> bytes \<Rightarrow> bytes option" where
  "scan 0 e st s = (if e = EndValue \<and> st = [] then Some s else None)"
| "scan (Suc k) e st s =
     (if e = EndValue \<and> st = [] then Some s
      else
        (case scan_step e st (skip_ws s) of
           None \<Rightarrow> None
         | Some (e', st', s') \<Rightarrow> scan k e' st' s'))"

definition scan_value :: "bytes \<Rightarrow> bytes option" where
  "scan_value s = scan (length s) BeginValue [] s"

text \<open>\<^verbatim>\<open>checkValid\<close>: one value, then only white space.\<close>

definition checkValid :: "bytes \<Rightarrow> bool" where
  "checkValid data =
     (case scan_value data of None \<Rightarrow> False | Some rest \<Rightarrow> skip_ws rest = [])"

text \<open>
  The name of a key folded as \<^verbatim>\<open>foldName\<close> folds it, as far as the names of the fields
  of \<^verbatim>\<open>Message\<close> can tell: ASCII letters in upper case, the Kelvin sign as \<open>K\<close>, the long s
  as \<open>S\<close>; every other rune folds to a rune outside ASCII and is left as it is.
\<close>

subsection \<open>Decoding into the struct\<close>

definition upper_char :: "char \<Rightarrow> char" where
  "upper_char c =
     (case map_of (zip ''abcdefghijklmnopqrstuvwxyz'' ''ABCDEFGHIJKLMNOPQRSTUVWXYZ'') c of
        Some d \<Rightarrow> d
      | None \<Rightarrow> c)"

fun foldName :: "bytes \<Rightarrow> bytes" where
  "foldName [] = []"
| "foldName (c # cs) =
     (if take 3 (c # cs) = [CHR 0xE2, CHR 0x84, CHR 0xAA] then CHR ''K'' # foldName (drop 2 cs)
      else if take 2 (c # cs) = [CHR 0xC5, CHR 0xBF] then CHR ''S'' # foldName (drop 1 cs)
      else upper_char c # foldName cs)"

datatype field = F_nick | F_text | F_ts

definition find_field :: "bytes \<Rightarrow> field option" where
  "find_field key =
     (if key = ''nick'' then Some F_nick
      else if key = ''text'' then Some F_text
      else if key = ''ts'' then Some F_ts
      else if foldName key = ''NICK'' then Some F_nick
      else if foldName key = ''TEXT'' then Some F_text
      else if foldName key = ''TS'' then Some F_ts
      else None)"

text \<open>The decoder's state: the struct being filled and the first type error it saved.\<close>

record decodeState =
  d_msg :: Message
  savedError :: "error option"

definition saveError :: "error \<Rightarrow> decodeState \<Rightarrow> decodeState" where
  "saveError err d = (if savedError d = None then d\<lparr>savedError := Some err\<rparr> else d)"

text \<open>
  Storing the value \<open>raw\<close> (its text in the input) into a string field: a string literal is
  unquoted and stored, \<^verbatim>\<open>null\<close> is skipped, anything else is a type error that is saved.
\<close>

definition store_string :: "(bytes \<Rightarrow> Message \<Rightarrow> Message) \<Rightarrow> bytes \<Rightarrow> decodeState \<Rightarrow> decodeState" where
  "store_string put raw d =
     (if raw \<noteq> [] \<and> hd raw = DQ then
        (case unquote (tl raw) of
           Some (x, r) \<Rightarrow> d\<lparr>d_msg := put x (d_msg d)\<rparr>
         | None \<Rightarrow> saveError (Failure ''json: invalid string'') d)
      else if raw \<noteq> [] \<and> hd raw = CHR ''n'' then d
      else saveError (Failure ''json: cannot unmarshal into Go struct field of type string'') d)"

text \<open>
  The field \<^verbatim>\<open>ts\<close> is a \<^verbatim>\<open>json.Unmarshaler\<close>: its \<^verbatim>\<open>UnmarshalJSON\<close> gets the text of the
  value, does nothing on \<^verbatim>\<open>null\<close> and parses everything else (\<open>tu\<close>); its error ends the
  decoding.
\<close>

definition store_field :: "(bytes \<Rightarrow> error + time) \<Rightarrow> bytes \<Rightarrow> bytes \<Rightarrow> decodeState \<Rightarrow> error + decodeState" where
  "store_field tu key raw d =
     (case find_field key of
        None \<Rightarrow> Inr d
      | Some F_nick \<Rightarrow> Inr (store_string (\<lambda>x m. m\<lparr>Nick := x\<rparr>) raw d)
      | Some F_text \<Rightarrow> Inr (store_string (\<lambda>x m. m\<lparr>Text := x\<rparr>) raw d)
      | Some F_ts \<Rightarrow>
          (if raw = ''null'' then Inr d
           else
             (case tu raw of
                Inl err \<Rightarrow> Inl err
              | Inr t \<Rightarrow> Inr (d\<lparr>d_msg := (d_msg d)\<lparr>Ts := t\<rparr>\<rparr>))))"

text \<open>
  One member of an object, read at its key: the key unquoted, the text of the value, and
  what follows the value.
\<close>

definition read_member :: "bytes \<Rightarrow> (bytes \<times> bytes \<times> bytes) option" where
  "read_member s =
     (if skip_ws s \<noteq> [] \<and> hd (skip_ws s) = DQ then
        (case unquote (tl (skip_ws s)) of
           None \<Rightarrow> None
         | Some (key, r) \<Rightarrow>
             (if skip_ws r \<noteq> [] \<and> hd (skip_ws r) = CHR '':'' then
                (case scan_value (skip_ws (tl (skip_ws r))) of
                   None \<Rightarrow> None
                 | Some r' \<Rightarrow>
                     Some (key,
                           take (length (skip_ws (tl (skip_ws r))) - length r')
                             (skip_ws (tl (skip_ws r))),
                           skip_ws r'))
              else None))
      else None)"

fun object_members :: "nat \<Rightarrow> (bytes \<Rightarrow> error + time) \<Rightarrow> decodeState \<Rightarrow> bytes \<Rightarrow> error + decodeState" where
  "object_members 0 tu d s = Inl (Failure ''json: unexpected end of input'')"
| "object_members (Suc k) tu d s =
     (case read_member s of
        None \<Rightarrow> Inl (Failure ''json: syntax error'')
      | Some (key, raw, r) \<Rightarrow>
          (case store_field tu key raw d of
             Inl err \<Rightarrow> Inl err
           | Inr d' \<Rightarrow>
               (if r \<noteq> [] \<and> hd r = CHR '','' then object_members k tu d' (tl r)
                else Inr d')))"

definition zero_Message :: Message where
  "zero_Message = \<lparr>Nick = [], Text = [], Ts = 0\<rparr>"

text \<open>
  \<^verbatim>\<open>json.Unmarshal(data, &m)\<close> for a fresh \<^verbatim>\<open>var m Message\<close>; \<open>tu\<close> is the parser of
  \<^verbatim>\<open>Time.UnmarshalJSON\<close>.
\<close>

definition json_Unmarshal :: "(bytes \<Rightarrow> error + time) \<Rightarrow> bytes \<Rightarrow> error + Message" where
  "json_Unmarshal tu data =
     (if \<not> checkValid data then Inl (Failure ''json: syntax error'')
      else if hd (skip_ws data) = CHR ''{'' then
        (if hd (skip_ws (tl (skip_ws data))) = CHR ''}'' then Inr zero_Message
         else
           (case object_members (length data) tu \<lparr>d_msg = zero_Message, savedError = None\<rparr>
                   (tl (skip_ws data)) of
              Inl err \<Rightarrow> Inl err
            | Inr d \<Rightarrow> (case savedError d of Some err \<Rightarrow> Inl err | None \<Rightarrow> Inr (d_msg d))))
      else if hd (skip_ws data) = CHR ''n'' then Inr zero_Message
      else Inl (Failure ''json: cannot unmarshal into Go value of type app.Message''))"

text \<open>
  \<^verbatim>\<open>json.Marshal\<close> of a \<^verbatim>\<open>Message\<close>: the three fields under their tags, in the order of the
  struct; \<open>tm\<close> is \<^verbatim>\<open>Time.MarshalJSON\<close>, whose error makes the whole call fail.
\<close>

definition field_key :: "string \<Rightarrow> bytes" where
  "field_key name = DQ # name @ [DQ, CHR '':'']"

definition json_Marshal :: "(time \<Rightarrow> error + bytes) \<Rightarrow> Message \<Rightarrow> error + bytes" where
  "json_Marshal tm m =
     (case tm (Ts m) of
        Inl err \<Rightarrow> Inl (Wrapped ''json: error calling MarshalJSON for type time.Time'' err)
      | Inr stamp \<Rightarrow>
          Inr (''{'' @ field_key ''nick'' @ quote (Nick m) @ '','' @ field_key ''text''
               @ quote (Text m) @ '','' @ field_key ''ts'' @ stamp @ ''}''))"

text \<open>The bytes \<^verbatim>\<open>json.Marshal\<close> writes for a message, given the text of its timestamp.\<close>

definition document :: "bytes \<Rightarrow> bytes \<Rightarrow> bytes \<Rightarrow> bytes" where
  "document n t stamp =
     CHR ''{'' # field_key ''nick'' @ DQ # appendString n @ DQ # CHR '','' #
       field_key ''text'' @ DQ # appendString t @ DQ # CHR '','' #
       field_key ''ts'' @ DQ # stamp @ DQ # [CHR ''}'']"

section \<open>A concrete library\<close>

text \<open>
  An instance of the library record on which the model runs on concrete inputs. Its
  time codec knows one instant, the zero \<^verbatim>\<open>time.Time\<close>, and the RFC 3339 text Go writes
  for it; its codec is the JSON codec above; its case folding and trimming are what
  \<^verbatim>\<open>strings.ToLower\<close> and \<^verbatim>\<open>strings.TrimSpace\<close> do on ASCII text.
\<close>

definition zero_rfc3339 :: string where
  "zero_rfc3339 = ''0001-01-01T00:00:00Z''"

definition stamp_MarshalJSON :: "time \<Rightarrow> error + bytes" where
  "stamp_MarshalJSON t =
     (if t = 0 then Inr (DQ # zero_rfc3339 @ [DQ]) else Inl (Failure ''not the zero instant''))"

definition stamp_UnmarshalJSON :: "bytes \<Rightarrow> error + time" where
  "stamp_UnmarshalJSON b =
     (if b = DQ # zero_rfc3339 @ [DQ] then Inr 0 else Inl (Failure ''parsing time''))"

text \<open>The wire bytes of the envelope of \<open>n\<close> with the text \<open>t\<close>, stamped with the zero instant.\<close>

definition wire :: "string \<Rightarrow> string \<Rightarrow> bytes" where
  "wire n t = document n t zero_rfc3339"

definition lower_char :: "char \<Rightarrow> char" where
  "lower_char c =
     (case map_of (zip ''ABCDEFGHIJKLMNOPQRSTUVWXYZ'' ''abcdefghijklmnopqrstuvwxyz'') c of
        Some d \<Rightarrow> d
      | None \<Rightarrow> c)"

definition is_space :: "char \<Rightarrow> bool" where
  "is_space c = (c \<in> set [CHR '' '', CHR 0x09, CHR 0x0A, CHR 0x0B, CHR 0x0C, CHR 0x0D])"

definition trim :: "string \<Rightarrow> string" where
  "trim s = rev (dropWhile is_space (rev (dropWhile is_space s)))"

definition sample_lib :: lib where
  "sample_lib =
     \<lparr>Marshal = json_Marshal stamp_MarshalJSON,
      Unmarshal = json_Unmarshal stamp_UnmarshalJSON,
      ToLower = map lower_char,
      TrimSpace = trim,
      Format = (\<lambda>t. ''0001-01-01 00:00:00'')\<rparr>"

text \<open>
  The invariant behind the value \<^verbatim>\<open>ChatLoop\<close> returns: once the receiver has returned, the
  group holds an error.
\<close>

definition receiver_error_kept :: "session \<Rightarrow> bool" where
  "receiver_error_kept s = (receiver_st s = Continue \<or> group_err s \<noteq> None)"

section \<open>Basic facts\<close>

lemma HasPrefix_Nil [simp]: "HasPrefix s []"
  by (simp add: HasPrefix_def)

lemma HasPrefix_Nil_Cons [simp]: "\<not> HasPrefix [] (c # p)"
  by (simp add: HasPrefix_def)

lemma HasPrefix_Cons_Cons [simp]: "HasPrefix (a # s) (c # p) = (a = c \<and> HasPrefix s p)"
  by (auto simp add: HasPrefix_def)

lemma HasPrefix_iff: "HasPrefix t p \<longleftrightarrow> (\<exists>x. t = p @ x)"
proof
  assume "HasPrefix t p"
  then have "t = p @ drop (length p) t"
    by (metis HasPrefix_def append_take_drop_id)
  then show "\<exists>x. t = p @ x" ..
next
  assume "\<exists>x. t = p @ x"
  then show "HasPrefix t p" by (auto simp add: HasPrefix_def)
qed

lemma utoa_sample: "utoa 1204 = ''1204''"
  by (simp add: utoa.simps digit_char_def)

lemma makeID_sample: "makeID [CHR 0xAB, CHR 0x12, CHR 0xCD, CHR 0x34] = ''ab12cd34''"
  by (simp add: makeID_def EncodeToString_def hex_digit_def)

text \<open>The \<^verbatim>\<open>ping\<close> command records the fresh id with the clock reading and publishes the probe.\<close>

lemma ping_records_probe:
  assumes "read_res i = Inr line" and "HasPrefix line ''/''"
    and "ToLower L (TrimSpace L (drop 1 line)) = ''ping''"
  shows "sender_iter L nick i s =
           (Continue,
            s\<lparr>pingOutstanding := (pingOutstanding s)(makeID (rnd i) \<mapsto> t_sent i),
              published := published s @
                [(marshal_bytes L \<lparr>Nick = nick, Text = ''__PING__'' @ makeID (rnd i), Ts = t_msg i\<rparr>,
                  s_pub i)]\<rparr>)"
  using assms by (simp add: sender_iter_def on_command_def Publish_def)

section \<open>The codec: what decoding reads back\<close>

lemma hexval_hex_digit: "d < 16 \<Longrightarrow> hexval (hex_digit d) = Some d"
proof -
  assume "d < 16"
  then have "d = 0 \<or> d = 1 \<or> d = 2 \<or> d = 3 \<or> d = 4 \<or> d = 5 \<or> d = 6 \<or> d = 7
      \<or> d = 8 \<or> d = 9 \<or> d = 10 \<or> d = 11 \<or> d = 12 \<or> d = 13 \<or> d = 14 \<or> d = 15"
    by arith
  then show ?thesis
    by (auto simp add: hexval_def hex_digit_def code_def)
qed

lemma char_of_code [simp]: "char_of (code c) = c"
  by (simp add: code_def)

lemma emit_simps [simp]:
  "emit x None = None" "emit x (Some (s, r)) = Some (x @ s, r)"
  by (simp_all add: emit_def)

lemma utf8_size_le: "utf8_size s \<le> length s"
  by (cases s) (auto simp add: utf8_size_def)

lemma utf8_size_ascii: "code c < 0x80 \<Longrightarrow> utf8_size (c # cs) = 1"
  by (simp add: utf8_size_def)

lemma utf8_size_prefix:
  assumes "0 < utf8_size s"
  shows "utf8_size (take (utf8_size s) s @ t) = utf8_size s"
proof (cases s)
  case Nil
  with assms show ?thesis by (simp add: utf8_size_def)
next
  case (Cons c cs)
  with assms show ?thesis
    by (auto simp add: utf8_size_def nth_append split: if_splits)
qed

lemma unquote_safe:
  assumes "code c < 0x80" and "htmlSafe c"
  shows "unquote (c # t) = emit [c] (unquote t)"
  using assms by (auto simp add: htmlSafe_def decode_next_def)

lemma getu4_00:
  assumes "x < 16" and "y < 16"
  shows "getu4 (CHR ''0'' # CHR ''0'' # hex_digit x # hex_digit y # t) = Some (x * 16 + y)"
proof -
  have "hexval (CHR ''0'') = Some 0"
    by (simp add: hexval_def code_def)
  with assms show ?thesis
    by (simp add: getu4_def hexval_hex_digit)
qed

lemma unquote_escape:
  assumes "code c < 0x80" and "\<not> htmlSafe c"
  shows "unquote (escape_byte c @ t) = emit [c] (unquote t)"
proof -
  have small: "code c div 16 < 16" "code c mod 16 < 16"
    using assms(1) by auto
  have *: "getu4 (CHR ''0'' # CHR ''0'' # hex_digit (code c div 16) # hex_digit (code c mod 16) # t)
      = Some (code c)"
    using getu4_00 [OF small] by simp
  show ?thesis
    using assms(1) *
    by (simp add: escape_byte_def decode_next_def decode_escape_def simple_escape_def
        BSL_def DQ_def AppendRune_def)
qed

lemma AppendRune_seps:
  "AppendRune 0x2028 = [CHR 0xE2, CHR 0x80, CHR 0xA8]"
  "AppendRune 0x2029 = [CHR 0xE2, CHR 0x80, CHR 0xA9]"
  by (simp_all add: AppendRune_def char_of_eq_iff)

lemma getu4_seps:
  "getu4 (CHR ''2'' # CHR ''0'' # CHR ''2'' # CHR ''8'' # t) = Some 0x2028"
  "getu4 (CHR ''2'' # CHR ''0'' # CHR ''2'' # CHR ''9'' # t) = Some 0x2029"
  by (simp_all add: getu4_def hexval_def code_def)

lemma unquote_2028:
  "unquote ((BSL # ''u2028'') @ t) = emit [CHR 0xE2, CHR 0x80, CHR 0xA8] (unquote t)"
  by (simp add: decode_next_def decode_escape_def getu4_seps AppendRune_seps BSL_def DQ_def)

lemma unquote_2029:
  "unquote ((BSL # ''u2029'') @ t) = emit [CHR 0xE2, CHR 0x80, CHR 0xA9] (unquote t)"
  by (simp add: decode_next_def decode_escape_def getu4_seps AppendRune_seps BSL_def DQ_def)

lemma unquote_raw:
  assumes "\<not> code c < 0x80" and "0 < utf8_size (c # cs)"
  shows "unquote (take (utf8_size (c # cs)) (c # cs) @ t)
     = emit (take (utf8_size (c # cs)) (c # cs)) (unquote t)"
proof -
  let ?n = "utf8_size (c # cs)"
  have n: "?n \<le> length (c # cs)" by (rule utf8_size_le)
  obtain k where k: "?n = Suc k" using assms(2) by (cases ?n) auto
  have c: "c \<noteq> DQ" "c \<noteq> BSL" "\<not> code c < 0x20"
    using assms(1) by (auto simp add: DQ_def BSL_def code_def)
  have p: "utf8_size (c # take k cs @ t) = Suc k"
    using utf8_size_prefix [OF assms(2), of t] k by simp
  have len: "k \<le> length cs" using n k by simp
  show ?thesis
    using c assms(1) p len by (simp add: k decode_next_def)
qed

lemma utf8_size_sep:
  assumes "take 3 s = [CHR 0xE2, CHR 0x80, c3]" and "0 < utf8_size s"
  shows "utf8_size s = 3"
proof -
  obtain r where s: "s = CHR 0xE2 # CHR 0x80 # c3 # r"
    using assms(1) by (cases s; cases "tl s"; cases "tl (tl s)") (auto split: if_splits)
  with assms(2) show ?thesis
    by (simp add: utf8_size_def code_def split: if_splits)
qed

lemma encode_next_raw:
  assumes "\<not> code (hd s) < 0x80" and "0 < utf8_size s"
    and "take 3 s \<noteq> [CHR 0xE2, CHR 0x80, CHR 0xA8]"
    and "take 3 s \<noteq> [CHR 0xE2, CHR 0x80, CHR 0xA9]"
  shows "encode_next s = (take (utf8_size s) s, utf8_size s)"
  using assms by (simp add: encode_next_def)

lemma encode_next_2028:
  assumes "\<not> code (hd s) < 0x80" and "0 < utf8_size s"
    and "take 3 s = [CHR 0xE2, CHR 0x80, CHR 0xA8]"
  shows "encode_next s = (BSL # ''u2028'', 3)"
  using assms by (simp add: encode_next_def)

lemma encode_next_2029:
  assumes "\<not> code (hd s) < 0x80" and "0 < utf8_size s"
    and "take 3 s = [CHR 0xE2, CHR 0x80, CHR 0xA9]"
  shows "encode_next s = (BSL # ''u2029'', 3)"
  using assms by (simp add: encode_next_def)

lemma encode_next_valid:
  assumes "0 < utf8_size (c # cs)"
  shows "snd (encode_next (c # cs)) = utf8_size (c # cs)
     \<and> unquote (fst (encode_next (c # cs)) @ t)
          = emit (take (utf8_size (c # cs)) (c # cs)) (unquote t)"
proof (cases "code c < 0x80")
  case True
  then show ?thesis
    using unquote_safe [of c t] unquote_escape [of c t]
    by (simp add: encode_next_def utf8_size_ascii)
next
  case False
  then have hd: "\<not> code (hd (c # cs)) < 0x80" by simp
  show ?thesis
  proof (cases "take 3 (c # cs) = [CHR 0xE2, CHR 0x80, CHR 0xA8]")
    case True
    have n: "utf8_size (c # cs) = 3" using True assms by (rule utf8_size_sep)
    have e: "encode_next (c # cs) = (BSL # ''u2028'', 3)"
      by (rule encode_next_2028 [OF hd assms True])
    show ?thesis
      by (simp only: e n True fst_conv snd_conv unquote_2028 simp_thms)
  next
    case n28: False
    show ?thesis
    proof (cases "take 3 (c # cs) = [CHR 0xE2, CHR 0x80, CHR 0xA9]")
      case True
      have n: "utf8_size (c # cs) = 3" using True assms by (rule utf8_size_sep)
      have e: "encode_next (c # cs) = (BSL # ''u2029'', 3)"
        by (rule encode_next_2029 [OF hd assms True])
      show ?thesis
        by (simp only: e n True fst_conv snd_conv unquote_2029 simp_thms)
    next
      case n29: False
      have e: "encode_next (c # cs) = (take (utf8_size (c # cs)) (c # cs), utf8_size (c # cs))"
        by (rule encode_next_raw [OF hd assms n28 n29])
      show ?thesis
        by (simp only: e fst_conv snd_conv unquote_raw [OF False assms] simp_thms)
    qed
  qed
qed

lemma AppendRune_replacement: "AppendRune 0xFFFD = replacement"
  by (simp add: AppendRune_def replacement_def char_of_eq_iff)

lemma getu4_fffd: "getu4 (CHR ''f'' # CHR ''f'' # CHR ''f'' # CHR ''d'' # t) = Some 0xFFFD"
  by (simp add: getu4_def hexval_def code_def)

lemma unquote_fffd: "unquote ((BSL # ''ufffd'') @ t) = emit replacement (unquote t)"
  by (simp add: decode_next_def decode_escape_def getu4_fffd AppendRune_replacement BSL_def DQ_def)

lemma encode_next_invalid:
  assumes "utf8_size s = 0" and "s \<noteq> []"
  shows "encode_next s = (BSL # ''ufffd'', 1)"
proof -
  have "\<not> code (hd s) < 0x80"
    using assms by (cases s) (auto simp add: utf8_size_def)
  with assms show ?thesis by (simp add: encode_next_def)
qed

text \<open>What the decoder reads back from a string the encoder wrote.\<close>

lemma unquote_appendString_any:
  "unquote (appendString s @ DQ # rest) = Some (coerce_utf8 s, rest)"
proof (induction s rule: appendString.induct)
  case 1
  show ?case by simp
next
  case (2 c cs)
  let ?n = "utf8_size (c # cs)"
  show ?case
  proof (cases "?n = 0")
    case True
    have e: "encode_next (c # cs) = (BSL # ''ufffd'', 1)"
      using True by (rule encode_next_invalid) simp
    have IH: "unquote (appendString cs @ DQ # rest) = Some (coerce_utf8 cs, rest)"
      using "2.IH" e by simp
    have "unquote (appendString (c # cs) @ DQ # rest)
        = emit replacement (unquote (appendString cs @ DQ # rest))"
      using unquote_fffd [of "appendString cs @ DQ # rest"] e
      by (simp del: unquote.simps)
    also have "\<dots> = Some (coerce_utf8 (c # cs), rest)"
      using IH True by simp
    finally show ?thesis .
  next
    case False
    then have pos: "0 < ?n" by simp
    from encode_next_valid [OF pos] have
      n: "snd (encode_next (c # cs)) = ?n" and
      u: "\<And>t. unquote (fst (encode_next (c # cs)) @ t) = emit (take ?n (c # cs)) (unquote t)"
      by auto
    have IH: "unquote (appendString (drop (?n - 1) cs) @ DQ # rest)
        = Some (coerce_utf8 (drop (?n - 1) cs), rest)"
      using "2.IH" n by simp
    obtain k where k: "?n = Suc k" using pos by (cases ?n) auto
    have "unquote (appendString (c # cs) @ DQ # rest)
        = emit (take ?n (c # cs)) (unquote (appendString (drop (?n - 1) cs) @ DQ # rest))"
      using u [of "appendString (drop (?n - 1) cs) @ DQ # rest"] n
      by (simp del: unquote.simps)
    also have "\<dots> = Some (coerce_utf8 (c # cs), rest)"
      using IH k by simp
    finally show ?thesis .
  qed
qed

lemma coerce_utf8_valid: "ValidString s \<Longrightarrow> coerce_utf8 s = s"
proof (induction s rule: coerce_utf8.induct)
  case 1
  show ?case by simp
next
  case (2 c cs)
  let ?n = "utf8_size (c # cs)"
  from "2.prems" have pos: "?n \<noteq> 0" and tl: "ValidString (drop (?n - 1) cs)"
    by (auto split: if_splits)
  have "coerce_utf8 (drop (?n - 1) cs) = drop (?n - 1) cs"
    using "2.IH" pos tl by simp
  with pos show ?case by simp
qed

lemma unquote_plain:
  "\<forall>c \<in> set s. htmlSafe c \<Longrightarrow> unquote (s @ DQ # rest) = Some (s, rest)"
proof (induction s)
  case Nil
  show ?case by simp
next
  case (Cons c s)
  then have c: "htmlSafe c" and "unquote (s @ DQ # rest) = Some (s, rest)"
    by simp_all
  moreover from c have "code c < 0x80" by (simp add: htmlSafe_def)
  ultimately show ?case
    using unquote_safe [of c "s @ DQ # rest"] by (simp del: unquote.simps)
qed

lemma skip_ws_token [simp]: "\<not> isSpace c \<Longrightarrow> skip_ws (c # s) = c # s"
  by (simp add: skip_ws_def)

lemma skip_ws_Nil [simp]: "skip_ws [] = []"
  by (simp add: skip_ws_def)

lemma not_space [simp]:
  "\<not> isSpace DQ" "\<not> isSpace (CHR ''{'')" "\<not> isSpace (CHR ''}'')" "\<not> isSpace (CHR '':'')"
  "\<not> isSpace (CHR '','')"
  by (simp_all add: isSpace_def DQ_def)

lemma DQ_neq [simp]:
  "DQ \<noteq> CHR ''{''" "DQ \<noteq> CHR ''[''" "DQ \<noteq> CHR ''}''" "DQ \<noteq> CHR '':''" "DQ \<noteq> CHR '',''"
  "DQ \<noteq> CHR ''n''" "DQ \<noteq> BSL"
  by (simp_all add: DQ_def BSL_def)

lemma scan_done [simp]: "scan k EndValue [] s = Some s"
  by (cases k) simp_all

lemma begin_string_literal:
  assumes "unquote (body @ DQ # r) = Some (x, r)"
  shows "begin_string st (DQ # body @ DQ # r) = Some (EndValue, st, r)"
  using assms by (simp add: begin_string_def)

lemma scan_open:
  "scan (Suc k) BeginValue [] (CHR ''{'' # r) = scan k BeginStringOrEmpty [ObjectKey] r"
  by (simp add: scan_step_def begin_value_def maxNestingDepth_def)

lemma scan_string_value:
  assumes "unquote (body @ DQ # r) = Some (x, r)"
  shows "scan (Suc k) BeginValue st (DQ # body @ DQ # r) = scan k EndValue st r"
  using begin_string_literal [OF assms, of st]
  by (simp add: scan_step_def begin_value_def)

lemma scan_key:
  assumes "\<forall>c \<in> set name. htmlSafe c" and "e = BeginString \<or> e = BeginStringOrEmpty"
  shows "scan (Suc (Suc k)) e (ObjectKey # st) (field_key name @ r)
     = scan k BeginValue (ObjectValue # st) r"
proof -
  have u: "unquote (name @ DQ # CHR '':'' # r) = Some (name, CHR '':'' # r)"
    using assms(1) by (rule unquote_plain)
  have b: "begin_string (ObjectKey # st) (DQ # name @ DQ # CHR '':'' # r)
      = Some (EndValue, ObjectKey # st, CHR '':'' # r)"
    using u by (rule begin_string_literal)
  from assms(2) b show ?thesis
    by (auto simp add: field_key_def scan_step_def end_value_def)
qed

lemma scan_comma:
  "scan (Suc k) EndValue (ObjectValue # st) (CHR '','' # r) = scan k BeginString (ObjectKey # st) r"
  by (simp add: scan_step_def end_value_def)

lemma scan_close:
  "scan (Suc k) EndValue [ObjectValue] (CHR ''}'' # r) = Some r"
  by (simp add: scan_step_def end_value_def)

lemma take_raw: "take (length (a @ r) - length r) (a @ r) = a"
  by simp

lemma scan_value_string:
  assumes "unquote (body @ DQ # r) = Some (x, r)"
  shows "scan_value (DQ # body @ DQ # r) = Some r"
  using scan_string_value [OF assms, of "length (body @ DQ # r)" "[]"]
  by (simp add: scan_value_def)

lemma read_member_string:
  assumes "\<forall>c \<in> set name. htmlSafe c" and "unquote (body @ DQ # r) = Some (x, r)"
  shows "read_member (field_key name @ DQ # body @ DQ # r)
     = Some (name, DQ # body @ [DQ], skip_ws r)"
proof -
  let ?v = "DQ # body @ DQ # r"
  have u: "unquote (name @ DQ # CHR '':'' # ?v) = Some (name, CHR '':'' # ?v)"
    using assms(1) by (rule unquote_plain)
  have v: "scan_value ?v = Some r"
    using assms(2) by (rule scan_value_string)
  have t: "take (length ?v - length r) ?v = DQ # body @ [DQ]"
    using take_raw [of "DQ # body @ [DQ]" r] by simp
  show ?thesis
    using u v t by (simp add: read_member_def field_key_def del: unquote.simps)
qed

lemma find_field_names:
  "find_field ''nick'' = Some F_nick" "find_field ''text'' = Some F_text"
  "find_field ''ts'' = Some F_ts"
  by (simp_all add: find_field_def)

lemma store_string_literal:
  assumes "unquote (body @ [DQ]) = Some (x, [])"
  shows "store_string put (DQ # body @ [DQ]) d = d\<lparr>d_msg := put x (d_msg d)\<rparr>"
  using assms by (simp add: store_string_def)

lemma names_plain:
  "\<forall>c \<in> set ''nick''. htmlSafe c" "\<forall>c \<in> set ''text''. htmlSafe c"
  "\<forall>c \<in> set ''ts''. htmlSafe c"
  by (simp_all add: htmlSafe_def code_def DQ_def BSL_def)

lemma unquote_appendString_end:
  "unquote (appendString s @ [DQ]) = Some (coerce_utf8 s, [])"
  by (rule unquote_appendString_any)

lemma member_string:
  assumes name: "\<forall>c \<in> set name. htmlSafe c"
    and field: "store_field tu name (DQ # appendString v @ [DQ]) d = Inr d'"
  shows "object_members (Suc k) tu d
           (field_key name @ DQ # appendString v @ DQ # CHR '','' # r)
         = object_members k tu d' r"
proof -
  have "read_member (field_key name @ DQ # appendString v @ DQ # CHR '','' # r)
      = Some (name, DQ # appendString v @ [DQ], skip_ws (CHR '','' # r))"
    using name unquote_appendString_any by (rule read_member_string)
  with field show ?thesis by simp
qed

lemma store_nick:
  "store_field tu ''nick'' (DQ # appendString v @ [DQ]) d
     = Inr (d\<lparr>d_msg := (d_msg d)\<lparr>Nick := coerce_utf8 v\<rparr>\<rparr>)"
  by (simp add: store_field_def find_field_names
      store_string_literal [OF unquote_appendString_end])

lemma store_text:
  "store_field tu ''text'' (DQ # appendString v @ [DQ]) d
     = Inr (d\<lparr>d_msg := (d_msg d)\<lparr>Text := coerce_utf8 v\<rparr>\<rparr>)"
  by (simp add: store_field_def find_field_names
      store_string_literal [OF unquote_appendString_end])

lemma store_ts:
  assumes "hd raw = DQ" and "tu raw = Inr t"
  shows "store_field tu ''ts'' raw d = Inr (d\<lparr>d_msg := (d_msg d)\<lparr>Ts := t\<rparr>\<rparr>)"
proof -
  have "raw \<noteq> ''null''" using assms(1) by (auto simp add: DQ_def)
  with assms(2) show ?thesis
    by (simp add: store_field_def find_field_names)
qed

lemma member_last:
  assumes plain: "\<forall>c \<in> set stamp. htmlSafe c" and tu: "tu (DQ # stamp @ [DQ]) = Inr t"
  shows "object_members (Suc k) tu d (field_key ''ts'' @ DQ # stamp @ DQ # [CHR ''}''])
         = Inr (d\<lparr>d_msg := (d_msg d)\<lparr>Ts := t\<rparr>\<rparr>)"
proof -
  have u: "unquote (stamp @ DQ # [CHR ''}'']) = Some (stamp, [CHR ''}''])"
    using plain by (rule unquote_plain)
  have "read_member (field_key ''ts'' @ DQ # stamp @ DQ # [CHR ''}''])
      = Some (''ts'', DQ # stamp @ [DQ], skip_ws [CHR ''}''])"
    using names_plain(3) u by (rule read_member_string)
  then show ?thesis
    using store_ts [of "DQ # stamp @ [DQ]" tu t d] tu by simp
qed

lemma document_valid:
  assumes plain: "\<forall>c \<in> set stamp. htmlSafe c"
  shows "checkValid (document n t stamp)"
proof -
  let ?R3 = "[CHR ''}'']"
  let ?K3 = "field_key ''ts'' @ DQ # stamp @ DQ # ?R3"
  let ?K2 = "field_key ''text'' @ DQ # appendString t @ DQ # CHR '','' # ?K3"
  let ?K1 = "field_key ''nick'' @ DQ # appendString n @ DQ # CHR '','' # ?K2"
  have u3: "unquote (stamp @ DQ # ?R3) = Some (stamp, ?R3)"
    using plain by (rule unquote_plain)
  have u2: "unquote (appendString t @ DQ # CHR '','' # ?K3) = Some (coerce_utf8 t, CHR '','' # ?K3)"
    by (rule unquote_appendString_any)
  have u1: "unquote (appendString n @ DQ # CHR '','' # ?K2) = Some (coerce_utf8 n, CHR '','' # ?K2)"
    by (rule unquote_appendString_any)
  obtain j where len: "length (document n t stamp)
      = Suc (Suc (Suc (Suc (Suc (Suc (Suc (Suc (Suc (Suc (Suc (Suc (Suc j))))))))))))"
    by (simp add: document_def field_key_def)
  have "scan (length (document n t stamp)) BeginValue [] (CHR ''{'' # ?K1) = Some []"
    unfolding len
    by (simp only: scan_open scan_key [OF names_plain(1)] scan_key [OF names_plain(2)]
        scan_key [OF names_plain(3)] scan_string_value [OF u1] scan_string_value [OF u2]
        scan_string_value [OF u3] scan_comma scan_close simp_thms)
  then show ?thesis
    by (simp add: checkValid_def scan_value_def document_def)
qed

text \<open>
  Decoding what the encoder wrote: the nick and the text come back coerced to valid
  UTF-8, the timestamp as \<^verbatim>\<open>Time.UnmarshalJSON\<close> parses it.
\<close>

lemma document_decoded:
  assumes plain: "\<forall>c \<in> set stamp. htmlSafe c" and tu: "tu (DQ # stamp @ [DQ]) = Inr ts"
  shows "json_Unmarshal tu (document n t stamp)
     = Inr \<lparr>Nick = coerce_utf8 n, Text = coerce_utf8 t, Ts = ts\<rparr>"
proof -
  let ?K3 = "field_key ''ts'' @ DQ # stamp @ DQ # [CHR ''}'']"
  let ?K2 = "field_key ''text'' @ DQ # appendString t @ DQ # CHR '','' # ?K3"
  let ?K1 = "field_key ''nick'' @ DQ # appendString n @ DQ # CHR '','' # ?K2"
  let ?d0 = "\<lparr>d_msg = zero_Message, savedError = None\<rparr>"
  obtain j where len: "length (document n t stamp) = Suc (Suc (Suc j))"
    by (simp add: document_def field_key_def)
  have "object_members (length (document n t stamp)) tu ?d0 ?K1
      = Inr \<lparr>d_msg = \<lparr>Nick = coerce_utf8 n, Text = coerce_utf8 t, Ts = ts\<rparr>, savedError = None\<rparr>"
    unfolding len
    by (simp only: member_string [OF names_plain(1) store_nick]
        member_string [OF names_plain(2) store_text] member_last [where tu = tu and stamp = stamp and t = ts, OF plain tu])
      (simp add: zero_Message_def)
  moreover have "hd (skip_ws (document n t stamp)) = CHR ''{''"
    by (simp add: document_def)
  moreover have "tl (skip_ws (document n t stamp)) = ?K1"
    by (simp add: document_def)
  moreover have "hd (skip_ws ?K1) \<noteq> CHR ''}''"
    by (simp add: field_key_def)
  ultimately show ?thesis
    using document_valid [OF plain, of n t]
    by (simp add: json_Unmarshal_def)
qed

lemma json_Marshal_document:
  assumes "tm (Ts m) = Inr (DQ # stamp @ [DQ])"
  shows "json_Marshal tm m = Inr (document (Nick m) (Text m) stamp)"
  using assms by (simp add: json_Marshal_def document_def quote_def)


lemma zero_rfc3339_plain: "\<forall>c \<in> set zero_rfc3339. htmlSafe c"
  by (simp add: zero_rfc3339_def htmlSafe_def code_def DQ_def BSL_def)

lemma stamp_codec:
  "stamp_MarshalJSON 0 = Inr (DQ # zero_rfc3339 @ [DQ])"
  "stamp_UnmarshalJSON (DQ # zero_rfc3339 @ [DQ]) = Inr 0"
  by (simp_all add: stamp_MarshalJSON_def stamp_UnmarshalJSON_def)



section \<open>The concrete library on sample inputs\<close>

lemma sample_Marshal: "Marshal sample_lib \<lparr>Nick = n, Text = t, Ts = 0\<rparr> = Inr (wire n t)"
  using json_Marshal_document [where tm = stamp_MarshalJSON and stamp = zero_rfc3339
      and m = "\<lparr>Nick = n, Text = t, Ts = 0\<rparr>"]
  by (simp add: sample_lib_def wire_def stamp_codec)

lemma sample_Unmarshal:
  assumes "ValidString n" and "ValidString t"
  shows "Unmarshal sample_lib (wire n t) = Inr \<lparr>Nick = n, Text = t, Ts = 0\<rparr>"
proof -
  have "json_Unmarshal stamp_UnmarshalJSON (document n t zero_rfc3339)
      = Inr \<lparr>Nick = coerce_utf8 n, Text = coerce_utf8 t, Ts = 0\<rparr>"
    using zero_rfc3339_plain stamp_codec(2) by (rule document_decoded)
  with assms show ?thesis
    by (simp add: sample_lib_def wire_def coerce_utf8_valid)
qed

lemma sample_garbage: "Unmarshal sample_lib ''garbage'' = Inl (Failure ''json: syntax error'')"
  by (simp add: sample_lib_def json_Unmarshal_def checkValid_def scan_value_def scan_step_def
      begin_value_def isDigit_def code_def DQ_def skip_ws_def isSpace_def)

lemma sample_wire:
  "wire ''bob'' ''hi''
     = ''{'' @ [DQ] @ ''nick'' @ [DQ] @ '':'' @ [DQ] @ ''bob'' @ [DQ] @ '','' @ [DQ] @ ''text''
       @ [DQ] @ '':'' @ [DQ] @ ''hi'' @ [DQ] @ '','' @ [DQ] @ ''ts'' @ [DQ] @ '':'' @ [DQ]
       @ ''0001-01-01T00:00:00Z'' @ [DQ] @ ''}''"
  by (simp add: wire_def document_def field_key_def encode_next_def htmlSafe_def code_def
      DQ_def BSL_def zero_rfc3339_def)

lemma sample_valid:
  "ValidString ''bob''" "ValidString ''alice''" "ValidString ''__PONG__ab12''"
  "ValidString ''__PING__ab12''" "ValidString ''__JOIN__''"
  by (simp_all add: utf8_size_def code_def)

lemma sample_command:
  "ToLower sample_lib (TrimSpace sample_lib (drop 1 ''/Ping '')) = ''ping''"
  by (simp add: sample_lib_def trim_def is_space_def lower_char_def)

section \<open>Probe correlation\<close>



section \<open>Self-filtering\<close>

text \<open>
  Claim C3. A decoded envelope whose nick is the local one and whose text starts with the
  probe prefix, starts with the reply prefix or is the presence token leaves the session
  as it was: nothing is published, nothing is written, the probe table is the same, and
  the loop goes on.
\<close>

theorem own_control_swallowed:
  assumes "next_res i = Inr data" and "Unmarshal L data = Inr m" and "Nick m = nick"
    and "HasPrefix (Text m) ''__PING__'' \<or> HasPrefix (Text m) ''__PONG__''
         \<or> Text m = ''__JOIN__''"
  shows "receiver_iter L nick i s = (Continue, s) \<and> chat_step L nick (Recv i) s = s"
  using assms
  by (auto simp add: receiver_iter_def on_message_def chat_step_def)

theorem own_control_swallowed_witness:
  "Unmarshal sample_lib (wire ''alice'' ''__PONG__ab12'')
     = Inr \<lparr>Nick = ''alice'', Text = ''__PONG__ab12'', Ts = 0\<rparr>
   \<and> receiver_iter sample_lib ''alice''
        \<lparr>next_res = Inr (wire ''alice'' ''__PONG__ab12''), r_now = 43000000, r_pub = None\<rparr>
        (init_session\<lparr>pingOutstanding := [''ab12'' \<mapsto> 1000000]\<rparr>)
      = (Continue, init_session\<lparr>pingOutstanding := [''ab12'' \<mapsto> 1000000]\<rparr>)"
  using
    own_control_swallowed [where
      i = "\<lparr>next_res = Inr (wire ''alice'' ''__PONG__ab12''), r_now = 43000000, r_pub = None\<rparr>"
      and data = "wire ''alice'' ''__PONG__ab12''" and L = sample_lib
      and m = "\<lparr>Nick = ''alice'', Text = ''__PONG__ab12'', Ts = 0\<rparr>" and nick = "''alice''"
      and s = "init_session\<lparr>pingOutstanding := [''ab12'' \<mapsto> 1000000]\<rparr>"]
    sample_Unmarshal [OF sample_valid(2) sample_valid(3)]
  by simp

section \<open>Malformed data\<close>

text \<open>
  Claim C5. A datum that \<^verbatim>\<open>json.Unmarshal\<close> rejects changes nothing: the iteration leaves
  the session as it was (so nothing is written), the receiver loop goes on with the data
  that follow, and the step of the whole session is the identity (no goroutine returns, the
  context is not cancelled).
\<close>

theorem undecodable_dropped:
  assumes "next_res i = Inr data" and "Unmarshal L data = Inl err"
  shows "receiver_iter L nick i s = (Continue, s)
       \<and> receiver L nick (i # rest) s = receiver L nick rest s
       \<and> chat_step L nick (Recv i) s = s"
  using assms
  by (simp add: receiver_iter_def receiver_def chat_step_def)

theorem undecodable_dropped_witness:
  "Unmarshal sample_lib ''garbage'' = Inl (Failure ''json: syntax error'')
   \<and> receiver_iter sample_lib ''alice''
        \<lparr>next_res = Inr ''garbage'', r_now = 5, r_pub = None\<rparr> init_session
      = (Continue, init_session)
   \<and> receiver sample_lib ''alice''
        [\<lparr>next_res = Inr ''garbage'', r_now = 5, r_pub = None\<rparr>,
         \<lparr>next_res = Inr (wire ''bob'' ''__JOIN__''), r_now = 6, r_pub = None\<rparr>] init_session
      = receiver sample_lib ''alice''
          [\<lparr>next_res = Inr (wire ''bob'' ''__JOIN__''), r_now = 6, r_pub = None\<rparr>] init_session
   \<and> chat_step sample_lib ''alice''
        (Recv \<lparr>next_res = Inr ''garbage'', r_now = 5, r_pub = None\<rparr>) init_session
      = init_session"
  using
    undecodable_dropped [where i = "\<lparr>next_res = Inr ''garbage'', r_now = 5, r_pub = None\<rparr>"
      and data = "''garbage''" and L = sample_lib and err = "Failure ''json: syntax error''"
      and nick = "''alice''" and s = init_session
      and rest = "[\<lparr>next_res = Inr (wire ''bob'' ''__JOIN__''), r_now = 6, r_pub = None\<rparr>]"]
    sample_garbage
  by simp

section \<open>Answering a remote probe\<close>

text \<open>
  Claim C7. A decoded envelope from another nick whose text is the probe prefix followed
  by an id \<open>X\<close> (every text that starts with the prefix is of this form, lemma
  \<open>HasPrefix_iff\<close>) makes the receiver hand exactly one payload to the topic: the encoding
  of the envelope with the local nick, the reply prefix followed by \<open>X\<close>, and the clock
  reading. Nothing is written to the terminal, the probe table is the same, and the loop
  goes on.
\<close>

theorem remote_probe_answered:
  assumes "next_res i = Inr data" and "Unmarshal L data = Inr m"
    and "Text m = ''__PING__'' @ X" and "Nick m \<noteq> nick"
  shows "receiver_iter L nick i s =
           (Continue,
            s\<lparr>published := published s @
                [(marshal_bytes L \<lparr>Nick = nick, Text = ''__PONG__'' @ X, Ts = r_now i\<rparr>,
                  r_pub i)]\<rparr>)"
  using assms
  by (simp add: receiver_iter_def on_message_def Publish_def)

theorem remote_probe_answered_witness:
  "Unmarshal sample_lib (wire ''bob'' ''__PING__ab12'')
     = Inr \<lparr>Nick = ''bob'', Text = ''__PING__ab12'', Ts = 0\<rparr>
   \<and> receiver_iter sample_lib ''alice''
        \<lparr>next_res = Inr (wire ''bob'' ''__PING__ab12''), r_now = 0, r_pub = None\<rparr> init_session
      = (Continue, init_session\<lparr>published := [(wire ''alice'' ''__PONG__ab12'', None)]\<rparr>)"
  using
    remote_probe_answered [where
      i = "\<lparr>next_res = Inr (wire ''bob'' ''__PING__ab12''), r_now = 0, r_pub = None\<rparr>"
      and data = "wire ''bob'' ''__PING__ab12''" and L = sample_lib
      and m = "\<lparr>Nick = ''bob'', Text = ''__PING__ab12'', Ts = 0\<rparr>" and X = "''ab12''"
      and nick = "''alice''" and s = init_session]
    sample_Unmarshal [OF sample_valid(1) sample_valid(4)]
    sample_Marshal [of "''alice''" "''__PONG__ab12''"]
  by (simp add: init_session_def marshal_bytes_def)

section \<open>Sending a chat line\<close>

text \<open>
  Claim C8. For an input line that does not start with the slash, the sender builds the
  envelope with the local nick, the line as text and the clock reading as timestamp, and
  hands its encoding to the topic. When the publish succeeds the loop goes on; when it
  fails with \<open>err\<close> the iteration returns \<open>err\<close>, so the sender loop returns \<open>err\<close>, and in the
  session the group keeps \<open>err\<close> and the shared context is cancelled.
\<close>

theorem chat_line_published:
  assumes "read_res i = Inr line" and "\<not> HasPrefix line ''/''"
    and "Marshal L \<lparr>Nick = nick, Text = line, Ts = t_msg i\<rparr> = Inr payload"
  shows "(s_pub i = None \<longrightarrow>
            sender_iter L nick i s =
              (Continue,
               s\<lparr>terminal := terminal s @ [up_clear_line],
                 published := published s @ [(payload, None)]\<rparr>))
       \<and> (s_pub i = Some err \<longrightarrow>
            sender_iter L nick i s =
              (Return (Some err),
               s\<lparr>terminal := terminal s @ [up_clear_line],
                 published := published s @ [(payload, Some err)]\<rparr>)
          \<and> fst (sender L nick (i # rest) s) = Return (Some err)
          \<and> (sender_st s = Continue \<and> group_err s = None \<longrightarrow>
               sender_st (chat_step L nick (Send i) s) = Return (Some err)
             \<and> group_err (chat_step L nick (Send i) s) = Some err
             \<and> ctx_done (chat_step L nick (Send i) s)))"
  using assms
  by (simp add: sender_iter_def sender_def Publish_def Write_def chat_step_def group_return_def)

theorem chat_line_published_witness:
  "Marshal sample_lib \<lparr>Nick = ''alice'', Text = ''hello'', Ts = 0\<rparr> = Inr (wire ''alice'' ''hello'')
   \<and> sender_iter sample_lib ''alice''
      \<lparr>read_res = Inr ''hello'', rnd = [], t_sent = 0, t_msg = 0, s_pub = None, peers = []\<rparr>
      init_session
    = (Continue,
       init_session\<lparr>terminal := [up_clear_line],
         published := [(wire ''alice'' ''hello'', None)]\<rparr>)
   \<and> sender_iter sample_lib ''alice''
      \<lparr>read_res = Inr ''hello'', rnd = [], t_sent = 0, t_msg = 0,
        s_pub = Some (Failure ''closed''), peers = []\<rparr>
      init_session
    = (Return (Some (Failure ''closed'')),
       init_session\<lparr>terminal := [up_clear_line],
         published := [(wire ''alice'' ''hello'', Some (Failure ''closed''))]\<rparr>)
   \<and> ctx_done (chat_step sample_lib ''alice''
        (Send \<lparr>read_res = Inr ''hello'', rnd = [], t_sent = 0, t_msg = 0,
           s_pub = Some (Failure ''closed''), peers = []\<rparr>) init_session)
   \<and> group_err (chat_step sample_lib ''alice''
        (Send \<lparr>read_res = Inr ''hello'', rnd = [], t_sent = 0, t_msg = 0,
           s_pub = Some (Failure ''closed''), peers = []\<rparr>) init_session)
      = Some (Failure ''closed'')"
  using
    chat_line_published [where
      i = "\<lparr>read_res = Inr ''hello'', rnd = [], t_sent = 0, t_msg = 0, s_pub = None, peers = []\<rparr>"
      and line = "''hello''" and L = sample_lib and nick = "''alice''"
      and payload = "wire ''alice'' ''hello''" and s = init_session]
    chat_line_published [where
      i = "\<lparr>read_res = Inr ''hello'', rnd = [], t_sent = 0, t_msg = 0,
             s_pub = Some (Failure ''closed''), peers = []\<rparr>"
      and line = "''hello''" and L = sample_lib and nick = "''alice''"
      and payload = "wire ''alice'' ''hello''" and s = init_session
      and err = "Failure ''closed''"]
    sample_Marshal [of "''alice''" "''hello''"]
  by (simp add: init_session_def)

section \<open>Publish failures of control envelopes\<close>

text \<open>
  Claim C10. When the publish of a probe (the \<^verbatim>\<open>ping\<close> command of the sender) or of a probe
  reply (the receiver answering a remote probe) fails with \<open>err\<close>, the failed call is all
  that happens: the iteration goes on, nothing is written to the terminal, and in the
  session the goroutine keeps running, the group keeps no error and the context stays
  as it was. (A failed publish of a chat line ends the sender, theorem
  \<open>chat_line_published\<close>.)
\<close>

theorem control_publish_failure_ignored:
  "(read_res si = Inr line \<and> HasPrefix line ''/''
      \<and> ToLower L (TrimSpace L (drop 1 line)) = ''ping'' \<and> s_pub si = Some err \<longrightarrow>
      fst (sender_iter L nick si s) = Continue
    \<and> published (snd (sender_iter L nick si s)) =
        published s @
          [(marshal_bytes L \<lparr>Nick = nick, Text = ''__PING__'' @ makeID (rnd si), Ts = t_msg si\<rparr>,
            Some err)]
    \<and> terminal (snd (sender_iter L nick si s)) = terminal s
    \<and> (sender_st s = Continue \<longrightarrow>
         sender_st (chat_step L nick (Send si) s) = Continue
       \<and> group_err (chat_step L nick (Send si) s) = group_err s
       \<and> ctx_done (chat_step L nick (Send si) s) = ctx_done s))
 \<and> (next_res ri = Inr data \<and> Unmarshal L data = Inr m
      \<and> HasPrefix (Text m) ''__PING__'' \<and> Nick m \<noteq> nick \<and> r_pub ri = Some err \<longrightarrow>
      fst (receiver_iter L nick ri s) = Continue
    \<and> published (snd (receiver_iter L nick ri s)) =
        published s @
          [(marshal_bytes L \<lparr>Nick = nick, Text = ''__PONG__'' @ drop 8 (Text m), Ts = r_now ri\<rparr>,
            Some err)]
    \<and> terminal (snd (receiver_iter L nick ri s)) = terminal s
    \<and> (receiver_st s = Continue \<longrightarrow>
         receiver_st (chat_step L nick (Recv ri) s) = Continue
       \<and> group_err (chat_step L nick (Recv ri) s) = group_err s
       \<and> ctx_done (chat_step L nick (Recv ri) s) = ctx_done s))"
  by (simp add: sender_iter_def on_command_def receiver_iter_def on_message_def Publish_def
      chat_step_def)

theorem control_publish_failure_ignored_witness:
  "ToLower sample_lib (TrimSpace sample_lib (drop 1 ''/Ping '')) = ''ping''
   \<and> fst (sender_iter sample_lib ''alice''
        \<lparr>read_res = Inr ''/Ping '', rnd = [CHR 0xAB, CHR 0x12], t_sent = 3, t_msg = 0,
          s_pub = Some (Failure ''closed''), peers = []\<rparr> init_session) = Continue
   \<and> published (snd (sender_iter sample_lib ''alice''
        \<lparr>read_res = Inr ''/Ping '', rnd = [CHR 0xAB, CHR 0x12], t_sent = 3, t_msg = 0,
          s_pub = Some (Failure ''closed''), peers = []\<rparr> init_session))
      = [(wire ''alice'' ''__PING__ab12'', Some (Failure ''closed''))]
   \<and> terminal (snd (sender_iter sample_lib ''alice''
        \<lparr>read_res = Inr ''/Ping '', rnd = [CHR 0xAB, CHR 0x12], t_sent = 3, t_msg = 0,
          s_pub = Some (Failure ''closed''), peers = []\<rparr> init_session)) = []
   \<and> fst (receiver_iter sample_lib ''alice''
        \<lparr>next_res = Inr (wire ''bob'' ''__PING__ab12''), r_now = 0,
          r_pub = Some (Failure ''closed'')\<rparr> init_session) = Continue
   \<and> published (snd (receiver_iter sample_lib ''alice''
        \<lparr>next_res = Inr (wire ''bob'' ''__PING__ab12''), r_now = 0,
          r_pub = Some (Failure ''closed'')\<rparr> init_session))
      = [(wire ''alice'' ''__PONG__ab12'', Some (Failure ''closed''))]
   \<and> ctx_done (chat_step sample_lib ''alice''
        (Recv \<lparr>next_res = Inr (wire ''bob'' ''__PING__ab12''), r_now = 0,
           r_pub = Some (Failure ''closed'')\<rparr>) init_session) = False"
  using
    control_publish_failure_ignored [where
      si = "\<lparr>read_res = Inr ''/Ping '', rnd = [CHR 0xAB, CHR 0x12], t_sent = 3, t_msg = 0,
              s_pub = Some (Failure ''closed''), peers = []\<rparr>"
      and line = "''/Ping ''" and L = sample_lib and nick = "''alice''" and s = init_session
      and err = "Failure ''closed''"
      and ri = "\<lparr>next_res = Inr (wire ''bob'' ''__PING__ab12''), r_now = 0,
                 r_pub = Some (Failure ''closed'')\<rparr>"
      and data = "wire ''bob'' ''__PING__ab12''"
      and m = "\<lparr>Nick = ''bob'', Text = ''__PING__ab12'', Ts = 0\<rparr>"]
    sample_command
    sample_Unmarshal [OF sample_valid(1) sample_valid(4)]
    sample_Marshal [of "''alice''" "''__PONG__ab12''"]
    sample_Marshal [of "''alice''" "''__PING__ab12''"]
  by (simp add: init_session_def marshal_bytes_def makeID_def EncodeToString_def hex_digit_def)

section \<open>The presence announcer publishes at most once\<close>







section \<open>What the session returns\<close>

lemma on_message_frame:
  "receiver_st (on_message L nick now pub m s) = receiver_st s
   \<and> sender_st (on_message L nick now pub m s) = sender_st s
   \<and> group_err (on_message L nick now pub m s) = group_err s"
  by (simp add: on_message_def Publish_def Write_def split: option.splits)

lemma receiver_iter_frame:
  "receiver_st (snd (receiver_iter L nick i s)) = receiver_st s
   \<and> sender_st (snd (receiver_iter L nick i s)) = sender_st s
   \<and> group_err (snd (receiver_iter L nick i s)) = group_err s"
  by (simp add: receiver_iter_def on_message_frame split: sum.splits)

text \<open>The receiver returns only from the branch \<^verbatim>\<open>if err != nil\<close>.\<close>

lemma receiver_iter_Return:
  "fst (receiver_iter L nick i s) = Return r \<Longrightarrow> r \<noteq> None"
  by (auto simp add: receiver_iter_def split: sum.splits)

lemma sender_iter_frame:
  "receiver_st (snd (sender_iter L nick i s)) = receiver_st s
   \<and> sender_st (snd (sender_iter L nick i s)) = sender_st s
   \<and> group_err (snd (sender_iter L nick i s)) = group_err s"
  by (simp add: sender_iter_def on_command_def Publish_def Write_def
      split: sum.splits option.splits)

lemma announcer_iter_frame:
  "receiver_st (snd (announcer_iter L nick a s)) = receiver_st s
   \<and> sender_st (snd (announcer_iter L nick a s)) = sender_st s
   \<and> group_err (snd (announcer_iter L nick a s)) = group_err s"
  by (cases a)
    (simp_all add: announcer_iter_def once_Do_def announce_def Publish_def split: sum.splits)

lemma chat_step_kept:
  assumes "receiver_error_kept s"
  shows "receiver_error_kept (chat_step L nick ev s)"
proof (cases ev)
  case (Recv i)
  show ?thesis
  proof (cases "fst (receiver_iter L nick i s)")
    case Continue
    with Recv assms show ?thesis
      by (auto simp add: chat_step_def receiver_error_kept_def receiver_iter_frame)
  next
    case (Return r)
    then obtain e where "r = Some e"
      using receiver_iter_Return by blast
    with Recv Return assms show ?thesis
      by (auto simp add: chat_step_def receiver_error_kept_def group_return_def)
  qed
next
  case (Send i)
  show ?thesis
  proof (cases "fst (sender_iter L nick i s)")
    case Continue
    with Send assms show ?thesis
      by (auto simp add: chat_step_def receiver_error_kept_def sender_iter_frame)
  next
    case (Return r)
    with Send assms show ?thesis
      by (auto simp add: chat_step_def receiver_error_kept_def sender_iter_frame
          group_return_def split: option.splits)
  qed
next
  case (Ann a)
  with assms show ?thesis
    by (auto simp add: chat_step_def receiver_error_kept_def announcer_iter_frame
        split: outcome.splits)
qed

lemma run_session_kept:
  "receiver_error_kept s \<Longrightarrow> receiver_error_kept (run_session L nick evs s)"
  unfolding run_session_def
  by (induction evs arbitrary: s) (simp_all add: chat_step_kept)

text \<open>
  Whatever the schedule, \<^verbatim>\<open>ChatLoop\<close> never returns \<^verbatim>\<open>nil\<close>: \<^verbatim>\<open>g.Wait()\<close> waits for the
  receiver, and the receiver returns only an error.
\<close>

lemma ChatLoop_never_nil: "fst (ChatLoop L nick rl_new evs) \<noteq> Some None"
proof (cases rl_new)
  case (Some err)
  then show ?thesis by (simp add: ChatLoop_def)
next
  case None
  have "receiver_error_kept (Write (joined_line nick) init_session)"
    by (simp add: receiver_error_kept_def Write_def init_session_def)
  then have "receiver_error_kept (run_session L nick evs (Write (joined_line nick) init_session))"
    by (rule run_session_kept)
  with None show ?thesis
    by (auto simp add: ChatLoop_def Wait_def receiver_error_kept_def)
qed

text \<open>The quit command and its aliases: the farewell, the cancellation, \<^verbatim>\<open>return nil\<close>.\<close>

lemma quit_ends_sender:
  assumes "read_res i = Inr line" and "HasPrefix line ''/''"
    and "ToLower L (TrimSpace L (drop 1 line)) = ''quit''
       \<or> ToLower L (TrimSpace L (drop 1 line)) = ''exit''
       \<or> ToLower L (TrimSpace L (drop 1 line)) = ''q''"
  shows "sender_iter L nick i s =
           (Return None, s\<lparr>terminal := terminal s @ [bye_line], ctx_done := True\<rparr>)"
  using assms by (auto simp add: sender_iter_def on_command_def Write_def)

text \<open>
  Claim C2, on the code. The user types \<^verbatim>\<open>/quit\<close>; the receiver's \<^verbatim>\<open>Next\<close> then fails with
  the cancellation of the context. The sender has written the farewell, cancelled the
  context and returned \<^verbatim>\<open>nil\<close>, both goroutines have returned, and \<^verbatim>\<open>ChatLoop\<close> returns
  the receiver's error, not \<^verbatim>\<open>nil\<close>.
\<close>

theorem quit_returns_cancellation:
  "ChatLoop sample_lib ''alice'' None
     [Send \<lparr>read_res = Inr ''/quit'', rnd = [], t_sent = 0, t_msg = 0, s_pub = None, peers = []\<rparr>,
      Recv \<lparr>next_res = Inl Canceled, r_now = 0, r_pub = None\<rparr>]
   = (Some (Some Canceled),
      init_session\<lparr>terminal := [joined_line ''alice'', bye_line], ctx_done := True,
        group_err := Some Canceled, receiver_st := Return (Some Canceled),
        sender_st := Return None\<rparr>)"
  by (simp add: ChatLoop_def run_session_def chat_step_def sender_iter_def on_command_def
      receiver_iter_def group_return_def Wait_def Write_def init_session_def sample_lib_def
      trim_def is_space_def lower_char_def)

end
